theory Spec2Isabelle
  imports Main "HOL-Library.Char_ord" "HOL-Library.List_Lexorder" "HOL-Library.Option_ord"
begin

section \<open>Cyclone monitoring: the two fetchers and the page\<close>

text \<open>
  The program is one Python script, \<^verbatim>\<open>cyclone_monitoring.py\<close>. It fetches the
  active storms from a JSON feed (\<^verbatim>\<open>fetch_real_time_cyclones\<close>), the recent
  storms from a CSV archive (\<^verbatim>\<open>fetch_last_50_cyclones\<close>), and renders each
  result or a fallback message. What the network answers is the input of the model.
  A run with a cold cache is modelled: \<^verbatim>\<open>st.cache_data\<close> only replays an earlier
  result of the same function.
\<close>

subsection \<open>Exceptions and outcomes\<close>

text \<open>
  The exceptions that the library calls of the script raise. The first three are
  subclasses of \<^verbatim>\<open>requests.exceptions.RequestException\<close> (the JSON decoding error
  of \<^verbatim>\<open>response.json()\<close> is one since requests 2.27); the others are not.
\<close>

datatype exn =
    ConnectionError string
  | HTTPError nat
  | JSONDecodeError
  | AttributeError
  | TypeError
  | KeyError string
  | URLError string
  | ParserError
  | ValueError

fun is_RequestException :: "exn \<Rightarrow> bool" where
  "is_RequestException (ConnectionError m) = True"
| "is_RequestException (HTTPError s) = True"
| "is_RequestException JSONDecodeError = True"
| "is_RequestException e = False"

subsection \<open>The historical archive as \<^verbatim>\<open>read_csv\<close> returns it\<close>

text \<open>
  A row of the frame that \<^verbatim>\<open>pd.read_csv\<close> builds, restricted to the seven columns
  the script reads. A cell is \<open>None\<close> where pandas has a missing value (NaN). The
  four measurement columns are carried unchanged, so their type is a parameter.
\<close>

record 'v ibtracs_row =
  NAME :: "string option"
  SEASON :: "int option"
  ISO_TIME :: "string option"
  WMO_WIND :: "'v option"
  WMO_PRES :: "'v option"
  LAT :: "'v option"
  LON :: "'v option"

record 'v csv_frame =
  columns :: "string list"
  records :: "'v ibtracs_row list"

text \<open>
  What the archive's URL answers: no answer at all, or a final HTTP status with a body
  that either parses as CSV (after the metadata row is skipped) or does not.
\<close>

datatype 'v csv_reply =
    Unreachable string
  | CsvResponse nat "'v csv_frame option"

text \<open>
  \<^verbatim>\<open>pd.read_csv(url)\<close> opens the URL with urllib, which raises for a transport
  failure and for every final status outside 200..299, then parses the body.
\<close>

definition read_csv :: "'v csv_reply \<Rightarrow> exn + 'v csv_frame" where
  "read_csv reply =
     (case reply of
        Unreachable m \<Rightarrow> Inl (URLError m)
      | CsvResponse status body \<Rightarrow>
          if \<not> (200 \<le> status \<and> status < 300) then Inl (HTTPError status)
          else (case body of None \<Rightarrow> Inl ParserError | Some df \<Rightarrow> Inr df))"

definition required_columns :: "string list" where
  "required_columns =
     [''NAME'', ''SEASON'', ''ISO_TIME'', ''WMO_WIND'', ''WMO_PRES'', ''LAT'', ''LON'']"

text \<open>\<^verbatim>\<open>df[[...]]\<close>: a column that the frame does not have raises KeyError.\<close>

definition select_columns :: "'v csv_frame \<Rightarrow> exn + 'v ibtracs_row list" where
  "select_columns df =
     (case filter (\<lambda>c. c \<notin> set (columns df)) required_columns of
        [] \<Rightarrow> Inr (records df)
      | c # _ \<Rightarrow> Inl (KeyError c))"

definition complete :: "'v ibtracs_row \<Rightarrow> bool" where
  "complete r \<longleftrightarrow>
     NAME r \<noteq> None \<and> SEASON r \<noteq> None \<and> ISO_TIME r \<noteq> None \<and> WMO_WIND r \<noteq> None \<and>
     WMO_PRES r \<noteq> None \<and> LAT r \<noteq> None \<and> LON r \<noteq> None"

definition dropna :: "'v ibtracs_row list \<Rightarrow> 'v ibtracs_row list" where
  "dropna rows = filter complete rows"

subsection \<open>The renamed frame\<close>

text \<open>
  The frame after \<^verbatim>\<open>rename\<close>. The Date column holds text before
  \<^verbatim>\<open>pd.to_datetime\<close> and timestamps after, so its type is a parameter too.
\<close>

record ('d, 'v) cyclone =
  Name :: "string option"
  Year :: "int option"
  Date :: "'d option"
  Wind_Speed_knots :: "'v option"
  Pressure_hPa :: "'v option"
  Latitude :: "'v option"
  Longitude :: "'v option"

definition rename :: "'v ibtracs_row \<Rightarrow> (string, 'v) cyclone" where
  "rename r =
     \<lparr>Name = NAME r, Year = SEASON r, Date = ISO_TIME r, Wind_Speed_knots = WMO_WIND r,
      Pressure_hPa = WMO_PRES r, Latitude = LAT r, Longitude = LON r\<rparr>"

text \<open>
  What \<^verbatim>\<open>pd.to_datetime\<close> reads from one text: nothing (it raises), the null
  timestamp NaT, or a timestamp (nanoseconds since the epoch). The parser is pandas'
  own and is a parameter \<open>parse\<close> of the model.
\<close>

datatype parsed = Invalid | NaT | Timestamp int

fun to_datetime_cell :: "(string \<Rightarrow> parsed) \<Rightarrow> string option \<Rightarrow> exn + int option" where
  "to_datetime_cell parse None = Inr None"
| "to_datetime_cell parse (Some s) =
     (case parse s of Invalid \<Rightarrow> Inl ValueError | NaT \<Rightarrow> Inr None | Timestamp t \<Rightarrow> Inr (Some t))"

fun to_datetime :: "(string \<Rightarrow> parsed) \<Rightarrow> (string, 'v) cyclone list \<Rightarrow> exn + (int, 'v) cyclone list" where
  "to_datetime parse [] = Inr []"
| "to_datetime parse (r # rs) =
     (case to_datetime_cell parse (Date r) of
        Inl e \<Rightarrow> Inl e
      | Inr d \<Rightarrow>
          (case to_datetime parse rs of
             Inl e \<Rightarrow> Inl e
           | Inr rs' \<Rightarrow>
               Inr (\<lparr>Name = Name r, Year = Year r, Date = d,
                     Wind_Speed_knots = Wind_Speed_knots r, Pressure_hPa = Pressure_hPa r,
                     Latitude = Latitude r, Longitude = Longitude r\<rparr> # rs')))"

text \<open>
  \<^verbatim>\<open>sort_values(by="Date", ascending=False)\<close>, as pandas' \<^verbatim>\<open>nargsort\<close> does it:
  the rows with a timestamp are reversed, sorted ascending and reversed again; the
  rows with NaT follow in their original order. The sort is taken to be stable; the
  order that numpy gives to rows of equal date is not fixed by pandas.
\<close>

definition sort_values_Date_desc :: "(int, 'v) cyclone list \<Rightarrow> (int, 'v) cyclone list" where
  "sort_values_Date_desc df =
     rev (sort_key Date (rev (filter (\<lambda>r. Date r \<noteq> None) df))) @ filter (\<lambda>r. Date r = None) df"

text \<open>
  \<^verbatim>\<open>groupby("Name").first().reset_index()\<close>: one row for each name that occurs, the
  names in ascending order (\<^verbatim>\<open>sort=True\<close> is the default, and a row with a missing
  name belongs to no group); each other column holds the first value of its group that is
  not missing.
\<close>

fun notna :: "'a option list \<Rightarrow> 'a list" where
  "notna [] = []"
| "notna (None # xs) = notna xs"
| "notna (Some x # xs) = x # notna xs"

definition first :: "'a option list \<Rightarrow> 'a option" where
  "first xs = (case notna xs of [] \<Rightarrow> None | x # _ \<Rightarrow> Some x)"

definition group_keys :: "('d, 'v) cyclone list \<Rightarrow> string list" where
  "group_keys df = sort (remdups (notna (map Name df)))"

definition group_first :: "('d, 'v) cyclone list \<Rightarrow> string \<Rightarrow> ('d, 'v) cyclone" where
  "group_first df k =
     (let g = filter (\<lambda>r. Name r = Some k) df
      in \<lparr>Name = Some k, Year = first (map Year g), Date = first (map Date g),
          Wind_Speed_knots = first (map Wind_Speed_knots g),
          Pressure_hPa = first (map Pressure_hPa g),
          Latitude = first (map Latitude g), Longitude = first (map Longitude g)\<rparr>)"

definition groupby_Name_first :: "('d, 'v) cyclone list \<Rightarrow> ('d, 'v) cyclone list" where
  "groupby_Name_first df = map (group_first df) (group_keys df)"

definition head :: "nat \<Rightarrow> 'a list \<Rightarrow> 'a list" where
  "head n df = take n df"

subsection \<open>\<^verbatim>\<open>fetch_last_50_cyclones\<close>\<close>

text \<open>
  What a call does: it raises, or it returns a value after showing messages
  (\<^verbatim>\<open>st.error\<close> with the text and the exception that it prints).
\<close>

datatype message = St_error string exn

datatype 'a outcome = Raised exn | Returned 'a "message list"

text \<open>The frame that the historical fetch has after line 44 and the renaming.\<close>

definition df_filtered :: "'v csv_reply \<Rightarrow> exn + (string, 'v) cyclone list" where
  "df_filtered reply =
     (case read_csv reply of
        Inl e \<Rightarrow> Inl e
      | Inr df \<Rightarrow>
          (case select_columns df of
             Inl e \<Rightarrow> Inl e
           | Inr sel \<Rightarrow> Inr (map rename (dropna sel))))"

text \<open>The same frame after line 50, with its dates parsed.\<close>

definition df_dated :: "(string \<Rightarrow> parsed) \<Rightarrow> 'v csv_reply \<Rightarrow> exn + (int, 'v) cyclone list" where
  "df_dated parse reply =
     (case df_filtered reply of Inl e \<Rightarrow> Inl e | Inr df \<Rightarrow> to_datetime parse df)"

text \<open>The body of the \<^verbatim>\<open>try\<close> block.\<close>

definition last_50_cyclones :: "(string \<Rightarrow> parsed) \<Rightarrow> 'v csv_reply \<Rightarrow> exn + (int, 'v) cyclone list" where
  "last_50_cyclones parse reply =
     (case df_dated parse reply of
        Inl e \<Rightarrow> Inl e
      | Inr df \<Rightarrow> Inr (head 50 (groupby_Name_first (sort_values_Date_desc df))))"

text \<open>\<^verbatim>\<open>except Exception\<close> catches every exception of the body.\<close>

definition fetch_last_50_cyclones ::
  "(string \<Rightarrow> parsed) \<Rightarrow> 'v csv_reply \<Rightarrow> (int, 'v) cyclone list option outcome" where
  "fetch_last_50_cyclones parse reply =
     (case last_50_cyclones parse reply of
        Inl e \<Rightarrow> Returned None [St_error ''Error fetching last 50 cyclones'' e]
      | Inr df \<Rightarrow> Returned (Some df) [])"

subsection \<open>The live feed\<close>

text \<open>
  A JSON value as \<^verbatim>\<open>response.json()\<close> returns it. An object is the list of the
  entries of the Python dict, in order, each key once. A float is a mantissa and a
  binary exponent; the script only carries numbers along.
\<close>

datatype json =
    JNull
  | JBool bool
  | JInt int
  | JFloat int int
  | JString string
  | JArray "json list"
  | JObject "(string \<times> json) list"

text \<open>What the feed's URL answers: no answer, or a status and a body that is JSON or not.\<close>

datatype http_reply =
    NoResponse string
  | Response nat "json option"

definition requests_get :: "http_reply \<Rightarrow> exn + nat \<times> json option" where
  "requests_get reply =
     (case reply of NoResponse m \<Rightarrow> Inl (ConnectionError m) | Response status body \<Rightarrow> Inr (status, body))"

text \<open>\<^verbatim>\<open>raise_for_status\<close> of requests raises for the statuses 400..599 and no other.\<close>

definition raise_for_status :: "nat \<Rightarrow> exn + unit" where
  "raise_for_status status =
     (if 400 \<le> status \<and> status < 600 then Inl (HTTPError status) else Inr ())"

definition response_json :: "json option \<Rightarrow> exn + json" where
  "response_json body = (case body of None \<Rightarrow> Inl JSONDecodeError | Some data \<Rightarrow> Inr data)"

text \<open>\<^verbatim>\<open>data.get("storms", [])\<close>: only a dict has \<^verbatim>\<open>get\<close>.\<close>

definition get_storms :: "json \<Rightarrow> exn + json" where
  "get_storms data =
     (case data of
        JObject kvs \<Rightarrow> Inr (case map_of kvs ''storms'' of None \<Rightarrow> JArray [] | Some v \<Rightarrow> v)
      | _ \<Rightarrow> Inl AttributeError)"

text \<open>
  What the \<^verbatim>\<open>for\<close> loop iterates over: the elements of a list, the keys of a dict,
  the characters of a string; nothing else is iterable.
\<close>

definition iterate :: "json \<Rightarrow> exn + json list" where
  "iterate v =
     (case v of
        JArray xs \<Rightarrow> Inr xs
      | JObject kvs \<Rightarrow> Inr (map (\<lambda>kv. JString (fst kv)) kvs)
      | JString s \<Rightarrow> Inr (map (\<lambda>c. JString [c]) s)
      | _ \<Rightarrow> Inl TypeError)"

text \<open>\<^verbatim>\<open>storm[key]\<close> with a string key: KeyError on a dict without it, TypeError on the rest.\<close>

definition getitem :: "json \<Rightarrow> string \<Rightarrow> exn + json" where
  "getitem storm key =
     (case storm of
        JObject kvs \<Rightarrow> (case map_of kvs key of None \<Rightarrow> Inl (KeyError key) | Some v \<Rightarrow> Inr v)
      | _ \<Rightarrow> Inl TypeError)"

text \<open>One row of the live table; the columns are named as the script names them.\<close>

record active_storm =
  Name_rt :: json
  Wind_Speed_knots_rt :: json
  Pressure_hPa_rt :: json
  Latitude_rt :: json
  Longitude_rt :: json

text \<open>The dict that lines 24 to 30 build; its five lookups run in this order.\<close>

definition storm_record :: "json \<Rightarrow> exn + active_storm" where
  "storm_record storm =
     (case getitem storm ''name'' of Inl e \<Rightarrow> Inl e | Inr n \<Rightarrow>
      case getitem storm ''wind'' of Inl e \<Rightarrow> Inl e | Inr w \<Rightarrow>
      case getitem storm ''pressure'' of Inl e \<Rightarrow> Inl e | Inr p \<Rightarrow>
      case getitem storm ''lat'' of Inl e \<Rightarrow> Inl e | Inr la \<Rightarrow>
      case getitem storm ''lon'' of Inl e \<Rightarrow> Inl e | Inr lo \<Rightarrow>
        Inr \<lparr>Name_rt = n, Wind_Speed_knots_rt = w, Pressure_hPa_rt = p,
             Latitude_rt = la, Longitude_rt = lo\<rparr>)"

text \<open>The loop of lines 23 to 30, appending to \<^verbatim>\<open>active_storms\<close>.\<close>

fun append_storms :: "active_storm list \<Rightarrow> json list \<Rightarrow> exn + active_storm list" where
  "append_storms active_storms [] = Inr active_storms"
| "append_storms active_storms (storm # rest) =
     (case storm_record storm of
        Inl e \<Rightarrow> Inl e
      | Inr r \<Rightarrow> append_storms (active_storms @ [r]) rest)"

text \<open>The body of the \<^verbatim>\<open>try\<close> block, up to the list that line 32 tests.\<close>

definition active_storms :: "http_reply \<Rightarrow> exn + active_storm list" where
  "active_storms reply =
     (case requests_get reply of Inl e \<Rightarrow> Inl e | Inr (status, body) \<Rightarrow>
      case raise_for_status status of Inl e \<Rightarrow> Inl e | Inr _ \<Rightarrow>
      case response_json body of Inl e \<Rightarrow> Inl e | Inr data \<Rightarrow>
      case get_storms data of Inl e \<Rightarrow> Inl e | Inr v \<Rightarrow>
      case iterate v of Inl e \<Rightarrow> Inl e | Inr storms \<Rightarrow>
        append_storms [] storms)"

text \<open>
  The handler catches \<^verbatim>\<open>requests.exceptions.RequestException\<close> only; any other
  exception leaves the function. The table is the list of its rows.
\<close>

definition fetch_real_time_cyclones :: "http_reply \<Rightarrow> active_storm list option outcome" where
  "fetch_real_time_cyclones reply =
     (case active_storms reply of
        Inl e \<Rightarrow>
          if is_RequestException e
          then Returned None [St_error ''Error fetching real-time cyclone data'' e]
          else Raised e
      | Inr rows \<Rightarrow> Returned (if rows \<noteq> [] then Some rows else None) [])"

subsection \<open>The page\<close>

text \<open>
  What the page shows, in order. The chart calls are taken to return: what plotly does
  with a table is not part of the script.
\<close>

datatype 'v element =
    St_title
  | Shown message
  | St_subheader string
  | St_write_rt "active_storm list"
  | Scatter_mapbox "active_storm list"
  | St_success string
  | St_write_past "(int, 'v) cyclone list"
  | Line_chart "(int, 'v) cyclone list"
  | St_warning string

definition show_real_time :: "active_storm list option \<Rightarrow> 'v element list" where
  "show_real_time real_time_data =
     (case real_time_data of
        Some df \<Rightarrow> [St_subheader ''Active Cyclones (Real-Time)'', St_write_rt df, Scatter_mapbox df]
      | None \<Rightarrow> [St_success ''No active cyclones detected.''])"

definition show_past :: "(int, 'v) cyclone list option \<Rightarrow> 'v element list" where
  "show_past past_cyclone_data =
     (case past_cyclone_data of
        Some df \<Rightarrow> [St_subheader ''Last 50 Cyclones (Historical)'', St_write_past df, Line_chart df]
      | None \<Rightarrow> [St_warning ''Could not retrieve the last 50 cyclones.''])"

text \<open>A run of the script: it ends, or an exception that nothing catches stops it.\<close>

datatype 'v run = Crashed exn "'v element list" | Finished "'v element list"

definition page :: "(string \<Rightarrow> parsed) \<Rightarrow> http_reply \<Rightarrow> 'v csv_reply \<Rightarrow> 'v run" where
  "page parse live archive =
     (case fetch_real_time_cyclones live of
        Raised e \<Rightarrow> Crashed e [St_title]
      | Returned real_time_data m1 \<Rightarrow>
          (case fetch_last_50_cyclones parse archive of
             Raised e \<Rightarrow> Crashed e (St_title # map Shown m1)
           | Returned past_cyclone_data m2 \<Rightarrow>
               Finished (St_title # map Shown m1 @ map Shown m2 @
                         show_real_time real_time_data @ show_past past_cyclone_data)))"

subsection \<open>Auxiliary notions for the statements\<close>

text \<open>A row of the renamed frame whose columns other than Date all hold a value.\<close>

definition filled :: "('d, 'v) cyclone \<Rightarrow> bool" where
  "filled r \<longleftrightarrow>
     Name r \<noteq> None \<and> Year r \<noteq> None \<and> Wind_Speed_knots r \<noteq> None \<and>
     Pressure_hPa r \<noteq> None \<and> Latitude r \<noteq> None \<and> Longitude r \<noteq> None"

subsection \<open>Sample inputs\<close>

text \<open>
  Texts of the form \<^verbatim>\<open>2024-01-01 00:00:SS\<close>, the timestamps that pandas reads from
  them (nanoseconds since 1970), and a parser that knows these texts and \<^verbatim>\<open>NaT\<close>.
\<close>

definition two_digits :: "nat \<Rightarrow> string" where
  "two_digits n = [''0123456789'' ! (n div 10), ''0123456789'' ! (n mod 10)]"

definition iso_time :: "nat \<Rightarrow> string" where
  "iso_time i = ''2024-01-01 00:00:'' @ two_digits i"

definition sample_time :: "nat \<Rightarrow> int" where
  "sample_time i = 1704067200000000000 + 1000000000 * int i"

definition sample_parse :: "string \<Rightarrow> parsed" where
  "sample_parse s =
     (case find (\<lambda>i. iso_time i = s) [0..<60] of
        Some i \<Rightarrow> Timestamp (sample_time i)
      | None \<Rightarrow> if s = ''NaT'' then NaT else Invalid)"

definition storm_name :: "nat \<Rightarrow> string" where
  "storm_name i = ''STORM'' @ two_digits i"

definition sample_row :: "string \<Rightarrow> string \<Rightarrow> int ibtracs_row" where
  "sample_row n t =
     \<lparr>NAME = Some n, SEASON = Some 2024, ISO_TIME = Some t, WMO_WIND = Some 35,
      WMO_PRES = Some 1000, LAT = Some 10, LON = Some 20\<rparr>"

definition sample_cyclone :: "string \<Rightarrow> nat \<Rightarrow> (int, int) cyclone" where
  "sample_cyclone n i =
     \<lparr>Name = Some n, Year = Some 2024, Date = Some (sample_time i), Wind_Speed_knots = Some 35,
      Pressure_hPa = Some 1000, Latitude = Some 10, Longitude = Some 20\<rparr>"

text \<open>Fifty-one storms, one row each; the later the name in the alphabet, the later the date.\<close>

definition archive_51 :: "int csv_reply" where
  "archive_51 =
     CsvResponse 200 (Some \<lparr>columns = required_columns,
       records = map (\<lambda>i. sample_row (storm_name i) (iso_time i)) [0..<51]\<rparr>)"

text \<open>Two storms with three complete rows, and one row without a wind speed.\<close>

definition archive_small :: "int csv_reply" where
  "archive_small =
     CsvResponse 200 (Some \<lparr>columns = required_columns,
       records = [sample_row ''ALPHA'' (iso_time 5), sample_row ''BETA'' (iso_time 9),
                  sample_row ''ALPHA'' (iso_time 7),
                  (sample_row ''GAMMA'' (iso_time 8))\<lparr>WMO_WIND := None\<rparr>]\<rparr>)"

text \<open>A CSV whose only row has no wind speed.\<close>

definition archive_incomplete :: "int csv_reply" where
  "archive_incomplete =
     CsvResponse 200 (Some \<lparr>columns = required_columns,
       records = [(sample_row ''GAMMA'' (iso_time 8))\<lparr>WMO_WIND := None\<rparr>]\<rparr>)"






definition live_empty :: http_reply where
  "live_empty = Response 200 (Some (JObject [(''storms'', JArray [])]))"

section \<open>Properties\<close>

subsection \<open>Lemmas about the historical fetch\<close>

lemma set_notna: "set (notna xs) = {x. Some x \<in> set xs}"
  by (induction xs rule: notna.induct) auto

lemma first_all_None: "\<forall>x\<in>set xs. x = None \<Longrightarrow> first xs = None"
  by (induction xs rule: notna.induct) (auto simp: first_def)

lemma set_sort_values: "set (sort_values_Date_desc df) = set df"
  by (auto simp: sort_values_Date_desc_def)

lemma sorted_wrt_all: "(\<And>x y. x \<in> set xs \<Longrightarrow> y \<in> set xs \<Longrightarrow> P x y) \<Longrightarrow> sorted_wrt P xs"
  by (induction xs) auto

lemma sorted_sort_values: "sorted_wrt (\<lambda>a b. Date b \<le> Date a) (sort_values_Date_desc df)"
proof -
  let ?A = "sort_key Date (rev (filter (\<lambda>r. Date r \<noteq> None) df))"
  have "sorted (map Date ?A)" by (rule sorted_sort_key)
  then have "sorted_wrt (\<lambda>a b. Date a \<le> Date b) ?A" by (simp add: sorted_wrt_map)
  then have 1: "sorted_wrt (\<lambda>a b. Date b \<le> Date a) (rev ?A)" by (simp add: sorted_wrt_rev)
  have 2: "sorted_wrt (\<lambda>a b. Date b \<le> Date a) (filter (\<lambda>r. Date r = None) df)"
    by (rule sorted_wrt_all) simp
  show ?thesis
    unfolding sort_values_Date_desc_def using 1 2 by (auto simp: sorted_wrt_append)
qed

lemma sorted_group_keys: "sorted_wrt (<) (group_keys df)"
  by (simp add: group_keys_def strict_sorted_iff)

lemma set_group_keys: "set (group_keys df) = {k. \<exists>r\<in>set df. Name r = Some k}"
  by (auto simp: group_keys_def set_notna image_iff) metis+


lemma first_map_hd:
  assumes "g \<noteq> []" "f (hd g) \<noteq> None"
  shows "first (map f g) = f (hd g)"
  using assms by (cases g) (auto simp: first_def)

lemma first_Date_hd:
  assumes "g \<noteq> []" "sorted_wrt (\<lambda>a b. Date b \<le> Date a) g"
  shows "first (map Date g) = Date (hd g)"
proof (cases "Date (hd g)")
  case None
  from assms obtain r rs where g: "g = r # rs" by (cases g) auto
  with None assms(2) have "\<forall>x\<in>set g. Date x = None"
    by (auto simp: less_eq_option_None_is_None)
  then have "first (map Date g) = None" by (intro first_all_None) auto
  with None show ?thesis by simp
next
  case (Some t)
  with assms(1) show ?thesis by (simp add: first_map_hd)
qed

lemma group_first_hd:
  fixes S :: "(int, 'v) cyclone list"
  assumes fill: "\<forall>r\<in>set S. filled r"
    and srt: "sorted_wrt (\<lambda>a b. Date b \<le> Date a) S"
    and k: "k \<in> set (group_keys S)"
  shows "filter (\<lambda>r. Name r = Some k) S \<noteq> []"
    and "group_first S k = hd (filter (\<lambda>r. Name r = Some k) S)"
proof -
  let ?g = "filter (\<lambda>r. Name r = Some k) S"
  from k show ne: "?g \<noteq> []" by (auto simp: set_group_keys filter_empty_conv)
  then have hd_in: "hd ?g \<in> set ?g" by (rule hd_in_set)
  then have "hd ?g \<in> set S \<and> Name (hd ?g) = Some k" unfolding set_filter by blast
  then have nm: "Name (hd ?g) = Some k" and fl: "filled (hd ?g)" using fill by auto
  have sg: "sorted_wrt (\<lambda>a b. Date b \<le> Date a) ?g" using srt by (rule sorted_wrt_filter)
  have "group_first S k =
          \<lparr>Name = Name (hd ?g), Year = Year (hd ?g), Date = Date (hd ?g),
           Wind_Speed_knots = Wind_Speed_knots (hd ?g), Pressure_hPa = Pressure_hPa (hd ?g),
           Latitude = Latitude (hd ?g), Longitude = Longitude (hd ?g)\<rparr>"
    using ne fl nm sg
    by (simp add: group_first_def Let_def first_map_hd first_Date_hd filled_def)
  then show "group_first S k = hd ?g" by simp
qed


lemma fetch_last_50_Some:
  "fetch_last_50_cyclones parse reply = Returned (Some out) msgs \<longleftrightarrow>
     last_50_cyclones parse reply = Inr out \<and> msgs = []"
  by (auto simp: fetch_last_50_cyclones_def split: sum.splits)

lemma last_50_cyclones_Inr:
  assumes "last_50_cyclones parse reply = Inr out"
  obtains df where "df_dated parse reply = Inr df"
    and "out = take 50 (map (group_first (sort_values_Date_desc df)) (group_keys (sort_values_Date_desc df)))"
  using assms
  by (auto simp: last_50_cyclones_def head_def groupby_Name_first_def split: sum.splits)

lemma to_datetime_filled:
  "to_datetime parse xs = Inr ys \<Longrightarrow> \<forall>x\<in>set xs. filled x \<Longrightarrow> \<forall>y\<in>set ys. filled y"
  by (induction xs arbitrary: ys) (auto simp: filled_def split: sum.splits)

lemma df_filtered_filled:
  "df_filtered reply = Inr df \<Longrightarrow> \<forall>x\<in>set df. filled x"
  by (auto simp: df_filtered_def dropna_def complete_def rename_def filled_def split: sum.splits)

lemma df_dated_filled:
  assumes "df_dated parse reply = Inr df"
  shows "\<forall>x\<in>set df. filled x"
proof -
  from assms obtain df0 where a: "df_filtered reply = Inr df0" and b: "to_datetime parse df0 = Inr df"
    by (auto simp: df_dated_def split: sum.splits)
  from to_datetime_filled[OF b df_filtered_filled[OF a]] show ?thesis .
qed

lemma out_rows:
  assumes "last_50_cyclones parse reply = Inr out" "r \<in> set out"
  obtains df k where "df_dated parse reply = Inr df"
    and "k \<in> set (group_keys (sort_values_Date_desc df))"
    and "filter (\<lambda>x. Name x = Some k) (sort_values_Date_desc df) \<noteq> []"
    and "r = hd (filter (\<lambda>x. Name x = Some k) (sort_values_Date_desc df))"
proof -
  from assms(1) obtain df where df: "df_dated parse reply = Inr df"
    and out: "out = take 50 (map (group_first (sort_values_Date_desc df)) (group_keys (sort_values_Date_desc df)))"
    by (rule last_50_cyclones_Inr)
  let ?S = "sort_values_Date_desc df"
  from assms(2) out have "r \<in> set (map (group_first ?S) (group_keys ?S))"
    by (auto dest: in_set_takeD)
  then obtain k where k: "k \<in> set (group_keys ?S)" and r: "r = group_first ?S k" by auto
  have fill: "\<forall>x\<in>set ?S. filled x" using df_dated_filled[OF df] by (simp add: set_sort_values)
  note gf = group_first_hd[OF fill sorted_sort_values k]
  show thesis using that[OF df k gf(1)] r gf(2) by simp
qed

lemma names_of_out:
  assumes "last_50_cyclones parse reply = Inr out"
  shows "\<exists>ks. map Name out = map Some ks \<and> sorted_wrt (<) ks \<and> length out \<le> 50"
proof -
  from assms obtain df where
    out: "out = take 50 (map (group_first (sort_values_Date_desc df)) (group_keys (sort_values_Date_desc df)))"
    by (rule last_50_cyclones_Inr)
  let ?S = "sort_values_Date_desc df"
  have "map Name out = map Some (take 50 (group_keys ?S))"
    unfolding out by (simp add: take_map group_first_def Let_def comp_def)
  moreover have "sorted_wrt (<) (take 50 (group_keys ?S))"
    using sorted_group_keys by (rule sorted_wrt_take)
  moreover have "length out \<le> 50" unfolding out by simp
  ultimately show ?thesis by blast
qed


lemma to_datetime_rows:
  "to_datetime parse xs = Inr ys \<Longrightarrow> y \<in> set ys \<Longrightarrow>
     \<exists>x\<in>set xs. Name y = Name x \<and> Year y = Year x \<and>
       to_datetime_cell parse (Date x) = Inr (Date y) \<and>
       Wind_Speed_knots y = Wind_Speed_knots x \<and> Pressure_hPa y = Pressure_hPa x \<and>
       Latitude y = Latitude x \<and> Longitude y = Longitude x"
  by (induction xs arbitrary: ys) (auto split: sum.splits)

lemma df_filtered_rows:
  "df_filtered reply = Inr df \<Longrightarrow>
     \<exists>frame. read_csv reply = Inr frame \<and> df = map rename (dropna (records frame))"
  by (auto simp: df_filtered_def select_columns_def split: sum.splits list.splits)

lemma df_dated_rows:
  assumes "df_dated parse reply = Inr df" and "y \<in> set df"
  shows "\<exists>frame raw. read_csv reply = Inr frame \<and> raw \<in> set (dropna (records frame)) \<and>
           Name y = NAME raw \<and> Year y = SEASON raw \<and>
           to_datetime_cell parse (ISO_TIME raw) = Inr (Date y) \<and>
           Wind_Speed_knots y = WMO_WIND raw \<and> Pressure_hPa y = WMO_PRES raw \<and>
           Latitude y = LAT raw \<and> Longitude y = LON raw"
proof -
  from assms(1) obtain df0 where a: "df_filtered reply = Inr df0"
    and b: "to_datetime parse df0 = Inr df"
    by (auto simp: df_dated_def split: sum.splits)
  from df_filtered_rows[OF a] obtain frame where f: "read_csv reply = Inr frame"
    and df0: "df0 = map rename (dropna (records frame))" by blast
  from to_datetime_rows[OF b assms(2)] obtain x where x: "x \<in> set df0"
    and eqs: "Name y = Name x" "Year y = Year x" "to_datetime_cell parse (Date x) = Inr (Date y)"
      "Wind_Speed_knots y = Wind_Speed_knots x" "Pressure_hPa y = Pressure_hPa x"
      "Latitude y = Latitude x" "Longitude y = Longitude x" by blast
  from x df0 obtain raw where raw: "raw \<in> set (dropna (records frame))" and xr: "x = rename raw"
    by auto
  show ?thesis using f raw eqs unfolding xr by (auto simp: rename_def)
qed

lemma fetch_last_50_returns:
  "\<exists>past m. fetch_last_50_cyclones parse archive = Returned past m"
  by (simp add: fetch_last_50_cyclones_def split: sum.splits)





subsection \<open>Lemmas about the live fetch\<close>






subsection \<open>The sample inputs evaluated\<close>

lemma fetch_archive_small:
  "fetch_last_50_cyclones sample_parse archive_small =
     Returned (Some [sample_cyclone ''ALPHA'' 7, sample_cyclone ''BETA'' 9]) []"
  by code_simp

lemma fetch_archive_incomplete:
  "fetch_last_50_cyclones sample_parse archive_incomplete = Returned (Some []) []"
  by code_simp


lemma df_dated_small: "df_dated sample_parse archive_small = Inr [sample_cyclone ''ALPHA'' 5, sample_cyclone ''BETA'' 9, sample_cyclone ''ALPHA'' 7]"
  by code_simp

section \<open>The claims\<close>

text \<open>
  C3. When the historical fetch returns a table, the table has at most 50 rows, and no
  two of its rows have the same storm name.
\<close>

theorem historical_at_most_50_one_row_per_name:
  assumes "fetch_last_50_cyclones parse reply = Returned (Some out) msgs"
  shows "length out \<le> 50 \<and> distinct (map Name out)"
proof -
  from assms have "last_50_cyclones parse reply = Inr out" by (simp add: fetch_last_50_Some)
  then obtain ks where "map Name out = map Some ks" "sorted_wrt (<) ks" "length out \<le> 50"
    using names_of_out by blast
  then show ?thesis by (simp add: strict_sorted_iff distinct_map)
qed

theorem historical_at_most_50_one_row_per_name_witness:
  "fetch_last_50_cyclones sample_parse archive_small =
     Returned (Some [sample_cyclone ''ALPHA'' 7, sample_cyclone ''BETA'' 9]) [] \<and>
   length [sample_cyclone ''ALPHA'' 7, sample_cyclone ''BETA'' 9] \<le> 50 \<and>
   distinct (map Name [sample_cyclone ''ALPHA'' 7, sample_cyclone ''BETA'' 9])"
  using historical_at_most_50_one_row_per_name [OF fetch_archive_small] fetch_archive_small
  by simp

text \<open>
  C9. When the historical fetch returns a table, its rows are in ascending order of
  storm name: the names are all present and strictly increasing down the table. This
  holds for the empty table too.
\<close>

theorem historical_ordered_by_name:
  assumes "fetch_last_50_cyclones parse reply = Returned (Some out) msgs"
  shows "\<exists>ks. map Name out = map Some ks \<and> sorted_wrt (<) ks"
proof -
  from assms have "last_50_cyclones parse reply = Inr out" by (simp add: fetch_last_50_Some)
  then show ?thesis using names_of_out by blast
qed

theorem historical_ordered_by_name_witness:
  "fetch_last_50_cyclones sample_parse archive_small =
     Returned (Some [sample_cyclone ''ALPHA'' 7, sample_cyclone ''BETA'' 9]) [] \<and>
   (\<exists>ks. map Name [sample_cyclone ''ALPHA'' 7, sample_cyclone ''BETA'' 9] = map Some ks \<and>
      sorted_wrt (<) ks)"
  using historical_ordered_by_name [OF fetch_archive_small] fetch_archive_small
  by simp

text \<open>
  C10. When the historical fetch returns a table, each of its rows is one row of the
  frame as it is after the incomplete rows are dropped and the dates are parsed, taken
  whole; and that row is a complete row of the CSV, with its seven values.
\<close>

theorem historical_row_taken_whole:
  assumes "fetch_last_50_cyclones parse reply = Returned (Some out) msgs" and "r \<in> set out"
  shows "(\<exists>df. df_dated parse reply = Inr df \<and> r \<in> set df) \<and>
         (\<exists>frame raw. read_csv reply = Inr frame \<and> raw \<in> set (dropna (records frame)) \<and>
            Name r = NAME raw \<and> Year r = SEASON raw \<and>
            to_datetime_cell parse (ISO_TIME raw) = Inr (Date r) \<and>
            Wind_Speed_knots r = WMO_WIND raw \<and> Pressure_hPa r = WMO_PRES raw \<and>
            Latitude r = LAT raw \<and> Longitude r = LON raw)"
proof -
  from assms(1) have "last_50_cyclones parse reply = Inr out" by (simp add: fetch_last_50_Some)
  from out_rows[OF this assms(2)] obtain df k where df: "df_dated parse reply = Inr df"
    and ne: "filter (\<lambda>x. Name x = Some k) (sort_values_Date_desc df) \<noteq> []"
    and r: "r = hd (filter (\<lambda>x. Name x = Some k) (sort_values_Date_desc df))"
    by blast
  from ne have "hd (filter (\<lambda>x. Name x = Some k) (sort_values_Date_desc df))
      \<in> set (filter (\<lambda>x. Name x = Some k) (sort_values_Date_desc df))" by (rule hd_in_set)
  then have "r \<in> set (sort_values_Date_desc df)" unfolding r set_filter by blast
  then have rin: "r \<in> set df" by (simp add: set_sort_values)
  from df rin have "\<exists>df. df_dated parse reply = Inr df \<and> r \<in> set df" by blast
  with df_dated_rows[OF df rin] show ?thesis by blast
qed

theorem historical_row_taken_whole_witness:
  "fetch_last_50_cyclones sample_parse archive_small =
     Returned (Some [sample_cyclone ''ALPHA'' 7, sample_cyclone ''BETA'' 9]) [] \<and>
   sample_cyclone ''ALPHA'' 7 \<in> set [sample_cyclone ''ALPHA'' 7, sample_cyclone ''BETA'' 9] \<and>
   (\<exists>df. df_dated sample_parse archive_small = Inr df \<and> sample_cyclone ''ALPHA'' 7 \<in> set df)"
proof -
  have mem: "sample_cyclone ''ALPHA'' 7 \<in> set [sample_cyclone ''ALPHA'' 7, sample_cyclone ''BETA'' 9]"
    by simp
  from historical_row_taken_whole [OF fetch_archive_small mem] fetch_archive_small mem
  show ?thesis by blast
qed

text \<open>
  C2. When the historical fetch returns a table, the date of each of its rows is the
  greatest date among the rows of the same storm name in the frame as it is after the
  incomplete rows are dropped and the dates are parsed. A date is a timestamp or NaT
  (\<open>None\<close>), and NaT counts as earlier than every timestamp, which is where the
  descending sort puts it.
\<close>

theorem historical_date_is_max:
  assumes "fetch_last_50_cyclones parse reply = Returned (Some out) msgs" and "r \<in> set out"
  shows "\<exists>df. df_dated parse reply = Inr df \<and>
           Date r = Max (Date ` {x \<in> set df. Name x = Name r})"
proof -
  from assms(1) have "last_50_cyclones parse reply = Inr out" by (simp add: fetch_last_50_Some)
  from out_rows[OF this assms(2)] obtain df k where df: "df_dated parse reply = Inr df"
    and ne: "filter (\<lambda>x. Name x = Some k) (sort_values_Date_desc df) \<noteq> []"
    and r: "r = hd (filter (\<lambda>x. Name x = Some k) (sort_values_Date_desc df))"
    by blast
  let ?g = "filter (\<lambda>x. Name x = Some k) (sort_values_Date_desc df)"
  from ne obtain rs where g: "?g = r # rs" unfolding r by (cases ?g) auto
  have "r \<in> set ?g" using g by simp
  then have rin: "r \<in> set df" and nm: "Name r = Some k" by (auto simp: set_sort_values)
  have sg: "sorted_wrt (\<lambda>a b. Date b \<le> Date a) ?g"
    using sorted_sort_values by (rule sorted_wrt_filter)
  have setg: "set ?g = {x \<in> set df. Name x = Name r}" by (auto simp: set_sort_values nm)
  have le: "\<forall>x\<in>set ?g. Date x \<le> Date r" using sg unfolding g by auto
  have "Max (Date ` {x \<in> set df. Name x = Name r}) = Date r"
  proof (rule Max_eqI)
    show "finite (Date ` {x \<in> set df. Name x = Name r})" by simp
    show "\<And>y. y \<in> Date ` {x \<in> set df. Name x = Name r} \<Longrightarrow> y \<le> Date r"
      using le unfolding setg by blast
    show "Date r \<in> Date ` {x \<in> set df. Name x = Name r}" using rin by blast
  qed
  with df show ?thesis by simp
qed

theorem historical_date_is_max_witness:
  "fetch_last_50_cyclones sample_parse archive_small =
     Returned (Some [sample_cyclone ''ALPHA'' 7, sample_cyclone ''BETA'' 9]) [] \<and>
   sample_cyclone ''ALPHA'' 7 \<in> set [sample_cyclone ''ALPHA'' 7, sample_cyclone ''BETA'' 9] \<and>
   Date (sample_cyclone ''ALPHA'' 7) =
     Max (Date ` {x \<in> set [sample_cyclone ''ALPHA'' 5, sample_cyclone ''BETA'' 9,
                           sample_cyclone ''ALPHA'' 7].
                 Name x = Name (sample_cyclone ''ALPHA'' 7)})"
proof -
  have mem: "sample_cyclone ''ALPHA'' 7 \<in> set [sample_cyclone ''ALPHA'' 7, sample_cyclone ''BETA'' 9]"
    by simp
  from historical_date_is_max [OF fetch_archive_small mem] fetch_archive_small mem
  show ?thesis by (simp add: df_dated_small)
qed

text \<open>
  C1. The docstring and the comments of the historical fetch promise the last 50
  cyclones. On the archive of fifty-one storms the fetch returns the fifty storms whose
  names come first in the alphabet, in ascending order of name and here of date, and
  leaves out the most recent storm.
\<close>

theorem last_50_are_first_names_not_latest_dates:
  "fetch_last_50_cyclones sample_parse archive_51 =
     Returned (Some (map (\<lambda>i. sample_cyclone (storm_name i) i) [0..<50])) []"
  by code_simp



text \<open>
  C7. When the feed answers \<^verbatim>\<open>{"storms": []}\<close> with a status that is not an error,
  the live fetch returns no table and shows no error, and the page shows the message
  that no active cyclones were detected where the live table would be, followed by
  what the historical fetch gives.
\<close>

theorem empty_storm_list_shows_no_active_cyclones:
  assumes "\<not> (400 \<le> status \<and> status < 600)"
  shows "fetch_real_time_cyclones (Response status (Some (JObject [(''storms'', JArray [])]))) =
           Returned None [] \<and>
         (\<exists>past m. fetch_last_50_cyclones parse archive = Returned past m \<and>
            page parse (Response status (Some (JObject [(''storms'', JArray [])]))) archive =
              Finished (St_title # map Shown m @
                        St_success ''No active cyclones detected.'' # show_past past))"
proof -
  have 1: "fetch_real_time_cyclones (Response status (Some (JObject [(''storms'', JArray [])]))) =
           Returned None []"
    using assms
    by (simp add: fetch_real_time_cyclones_def active_storms_def requests_get_def
        raise_for_status_def response_json_def get_storms_def iterate_def)
  obtain past m where 2: "fetch_last_50_cyclones parse archive = Returned past m"
    using fetch_last_50_returns by blast
  show ?thesis using 1 2 by (simp add: page_def show_real_time_def)
qed

theorem empty_storm_list_shows_no_active_cyclones_witness:
  "\<not> (400 \<le> (200::nat) \<and> (200::nat) < 600) \<and>
   fetch_real_time_cyclones live_empty = Returned None [] \<and>
   (\<exists>past m. fetch_last_50_cyclones sample_parse archive_small = Returned past m \<and>
      page sample_parse live_empty archive_small =
        Finished (St_title # map Shown m @
                  St_success ''No active cyclones detected.'' # show_past past))"
proof -
  have h: "\<not> (400 \<le> (200::nat) \<and> (200::nat) < 600)" by simp
  from empty_storm_list_shows_no_active_cyclones [OF h, of sample_parse archive_small] h
  show ?thesis unfolding live_empty_def by blast
qed










end
